theory Spec2Isabelle
  imports Main "HOL-Library.Monad_Syntax"
begin

section \<open>JavaScript values read by the edge function\<close>

text \<open>
  The handler of \<^verbatim>\<open>supabase/functions/instagram-downloader/index.ts\<close> reads two
  JSON documents it does not control: the request body and the answer of the upstream
  service.  Both are values produced by \<^verbatim>\<open>JSON.parse\<close>; a property read on them may
  also give \<^verbatim>\<open>undefined\<close>.  Numbers are kept as integers: the code only tests a number
  for truthiness and for \<^verbatim>\<open>=== 0\<close>, and otherwise passes it on unchanged.  Strings are
  lists of 8-bit characters, so the model covers strings whose code units are below 256.
  The pairs of a \<open>JObj\<close> are the own properties of the parsed object.
\<close>

datatype jsval =
    JUndefined
  | JNull
  | JBool bool
  | JNum int
  | JStr string
  | JArr "jsval list"
  | JObj "(string \<times> jsval) list"

text \<open>ToBoolean: what \<^verbatim>\<open>!v\<close>, \<^verbatim>\<open>v || w\<close> and \<^verbatim>\<open>v && w\<close> test.\<close>

fun truthy :: "jsval \<Rightarrow> bool" where
  "truthy JUndefined = False"
| "truthy JNull = False"
| "truthy (JBool b) = b"
| "truthy (JNum n) = (n \<noteq> 0)"
| "truthy (JStr s) = (s \<noteq> [])"
| "truthy (JArr xs) = True"
| "truthy (JObj kvs) = True"

text \<open>\<^verbatim>\<open>a || b\<close> on values.\<close>

definition js_or :: "jsval \<Rightarrow> jsval \<Rightarrow> jsval" where
  "js_or a b = (if truthy a then a else b)"

text \<open>
  The property read \<^verbatim>\<open>v.k\<close>, for the names the handler reads (\<^verbatim>\<open>url\<close>, \<^verbatim>\<open>status\<close>,
  \<^verbatim>\<open>data\<close>, \<^verbatim>\<open>medias\<close>, \<^verbatim>\<open>length\<close>, \<^verbatim>\<open>quality\<close>, \<^verbatim>\<open>formattedSize\<close>, \<^verbatim>\<open>type\<close>,
  \<^verbatim>\<open>thumbnail\<close>): none of them is an index or a member of a built-in prototype other
  than \<^verbatim>\<open>length\<close>.  Reading a property of \<^verbatim>\<open>null\<close> or \<^verbatim>\<open>undefined\<close> throws a TypeError,
  which is the value \<open>None\<close>.
\<close>

fun js_get :: "jsval \<Rightarrow> string \<Rightarrow> jsval option" where
  "js_get JUndefined k = None"
| "js_get JNull k = None"
| "js_get (JBool b) k = Some JUndefined"
| "js_get (JNum n) k = Some JUndefined"
| "js_get (JStr s) k = Some (if k = ''length'' then JNum (int (length s)) else JUndefined)"
| "js_get (JArr xs) k = Some (if k = ''length'' then JNum (int (length xs)) else JUndefined)"
| "js_get (JObj kvs) k = Some (case map_of kvs k of None \<Rightarrow> JUndefined | Some v \<Rightarrow> v)"

text \<open>Decimal rendering of an integer, as \<^verbatim>\<open>Number.prototype.toString\<close> gives it.\<close>

definition digit_char :: "nat \<Rightarrow> char" where
  "digit_char d = char_of (48 + d)"

function show_nat :: "nat \<Rightarrow> string" where
  "show_nat n = (if n < 10 then [digit_char n] else show_nat (n div 10) @ [digit_char (n mod 10)])"
  by pat_completeness auto
termination
  by (relation "measure (\<lambda>n. n)") auto

declare show_nat.simps [simp del]

definition show_int :: "int \<Rightarrow> string" where
  "show_int i = (if i < 0 then CHR ''-'' # show_nat (nat (- i)) else show_nat (nat i))"

text \<open>\<^verbatim>\<open>Array.prototype.join(',')\<close> on the rendered elements.\<close>

fun join_comma :: "string list \<Rightarrow> string" where
  "join_comma [] = []"
| "join_comma [s] = s"
| "join_comma (s # t # ss) = s @ CHR '','' # join_comma (t # ss)"

text \<open>
  ToString, which \<^verbatim>\<open>RegExp.prototype.test\<close> and \<^verbatim>\<open>encodeURIComponent\<close> apply to their
  argument.  An array joins its elements with commas, \<^verbatim>\<open>null\<close> and \<^verbatim>\<open>undefined\<close>
  elements giving the empty string.
\<close>

fun js_toString :: "jsval \<Rightarrow> string" where
  "js_toString JUndefined = ''undefined''"
| "js_toString JNull = ''null''"
| "js_toString (JBool b) = (if b then ''true'' else ''false'')"
| "js_toString (JNum n) = show_int n"
| "js_toString (JStr s) = s"
| "js_toString (JArr xs) =
     join_comma (map (\<lambda>x. if x = JNull \<or> x = JUndefined then [] else js_toString x) xs)"
| "js_toString (JObj kvs) = ''[object Object]''"

section \<open>Regular expressions\<close>

text \<open>
  The fragment of JavaScript's regular expressions the handler uses: literal characters,
  character classes, sequence, alternation, \<^verbatim>\<open>?\<close>, \<^verbatim>\<open>*\<close> and \<^verbatim>\<open>+\<close>.  Without
  back-references and look-around, \<^verbatim>\<open>test\<close> on a pattern anchored by \<^verbatim>\<open>^\<close> and \<^verbatim>\<open>$\<close>
  (no \<^verbatim>\<open>m\<close> flag) answers whether the whole string is in the pattern's language; the
  matcher below decides that by derivatives.  \<open>Eps\<close> and \<open>Never\<close> only arise as
  derivatives.
\<close>

datatype regex =
    Never
  | Eps
  | Lit char
  | Class "char \<Rightarrow> bool"
  | Cat regex regex
  | Or regex regex
  | Opt regex
  | Star regex
  | Plus regex

fun nullable :: "regex \<Rightarrow> bool" where
  "nullable Never = False"
| "nullable Eps = True"
| "nullable (Lit c) = False"
| "nullable (Class P) = False"
| "nullable (Cat r s) = (nullable r \<and> nullable s)"
| "nullable (Or r s) = (nullable r \<or> nullable s)"
| "nullable (Opt r) = True"
| "nullable (Star r) = True"
| "nullable (Plus r) = nullable r"

fun deriv :: "char \<Rightarrow> regex \<Rightarrow> regex" where
  "deriv c Never = Never"
| "deriv c Eps = Never"
| "deriv c (Lit d) = (if c = d then Eps else Never)"
| "deriv c (Class P) = (if P c then Eps else Never)"
| "deriv c (Cat r s) =
     (if nullable r then Or (Cat (deriv c r) s) (deriv c s) else Cat (deriv c r) s)"
| "deriv c (Or r s) = Or (deriv c r) (deriv c s)"
| "deriv c (Opt r) = deriv c r"
| "deriv c (Star r) = Cat (deriv c r) (Star r)"
| "deriv c (Plus r) = Cat (deriv c r) (Star r)"

text \<open>\<^verbatim>\<open>/^(r)$/.test(s)\<close>.\<close>

definition regex_test_anchored :: "regex \<Rightarrow> string \<Rightarrow> bool" where
  "regex_test_anchored r s = nullable (fold deriv s r)"

text \<open>A run of literal characters.\<close>

fun lits :: "string \<Rightarrow> regex" where
  "lits [] = Eps"
| "lits (c # cs) = Cat (Lit c) (lits cs)"

text \<open>The class \<^verbatim>\<open>[a-zA-Z0-9_-]\<close>.\<close>

definition id_char :: "char \<Rightarrow> bool" where
  "id_char c =
     (let n = (of_char c :: nat)
      in (97 \<le> n \<and> n \<le> 122) \<or> (65 \<le> n \<and> n \<le> 90) \<or> (48 \<le> n \<and> n \<le> 57)
         \<or> c = CHR ''_'' \<or> c = CHR ''-'')"

text \<open>
  The class \<^verbatim>\<open>.\<close> (no \<^verbatim>\<open>s\<close> flag): every character but a line terminator.  Of the
  four line terminators, line feed and carriage return are 8-bit characters.
\<close>

definition dot_char :: "char \<Rightarrow> bool" where
  "dot_char c = (c \<noteq> CHR 0x0A \<and> c \<noteq> CHR 0x0D)"

text \<open>
  The pattern of line 269,
  \<^verbatim>\<open>/^(https?:\/\/(?:www\.)?instagram\.com\/(?:p|reel|tv)\/[a-zA-Z0-9_-]+\/?.*)$/\<close>,
  without its anchors.
\<close>

definition INSTAGRAM_URL_PATTERN :: regex where
  "INSTAGRAM_URL_PATTERN =
     Cat (lits ''http'') (Cat (Opt (Lit CHR ''s'')) (Cat (lits ''://'')
    (Cat (Opt (lits ''www.''))
    (Cat (lits ''instagram.com/'')
    (Cat (Or (lits ''p'') (Or (lits ''reel'') (lits ''tv'')))
    (Cat (Lit CHR ''/'')
    (Cat (Plus (Class id_char))
    (Cat (Opt (Lit CHR ''/''))
         (Star (Class dot_char))))))))))"

definition isValidInstagramUrl :: "jsval \<Rightarrow> bool" where
  "isValidInstagramUrl url = regex_test_anchored INSTAGRAM_URL_PATTERN (js_toString url)"

section \<open>Configuration, requests and responses\<close>

text \<open>
  The module-level constants read from the environment (lines 90 to 95).
  \<open>ALLOWED_ORIGINS\<close> is the list after splitting and trimming, \<open>REQUIRED_API_KEY\<close> is
  \<open>None\<close> when the variable is unset, and the two rate-limit constants are the integers
  \<^verbatim>\<open>parseInt\<close> returned.
\<close>

record config =
  ALLOWED_ORIGINS :: "string list"
  REQUIRED_API_KEY :: "string option"
  RATE_LIMIT_WINDOW_SECONDS :: int
  RATE_LIMIT_MAX_REQUESTS :: int

text \<open>
  What the handler reads of a request: the method, the result of
  \<^verbatim>\<open>req.headers.get\<close> for five header names (\<open>None\<close> is \<^verbatim>\<open>null\<close>), and the result of
  \<^verbatim>\<open>req.json()\<close> (\<open>None\<close> when the body is not JSON and the promise rejects).
\<close>

record request =
  http_method :: string
  hdr_Origin :: "string option"
  hdr_X_Forwarded_For :: "string option"
  hdr_X_Real_IP :: "string option"
  hdr_CF_Connecting_IP :: "string option"
  hdr_Authorization :: "string option"
  json_body :: "jsval option"

record DownloadOption =
  quality :: jsval
  url :: jsval
  size_str :: jsval

record MediaResult =
  media_type :: jsval
  originalUrl :: jsval
  thumbnail :: jsval
  downloadOptions :: "DownloadOption list"

text \<open>The interface \<^verbatim>\<open>ApiResponse<T>\<close>; an optional field that is not set is \<open>None\<close>.\<close>

record ApiResponse =
  success :: bool
  data :: "MediaResult option"
  error :: "string option"
  errorCode :: "string option"

text \<open>A \<^verbatim>\<open>Response\<close>: status, headers, and the serialised envelope (\<open>None\<close> for a null body).\<close>

record response =
  status :: nat
  headers :: "string \<rightharpoonup> string"
  body :: "ApiResponse option"

text \<open>One entry of \<^verbatim>\<open>rateLimiterStore\<close>, and the store itself.\<close>

record rate_entry =
  count :: int
  resetTime :: int

type_synonym store = "string \<rightharpoonup> rate_entry"

text \<open>
  What the two awaits of \<^verbatim>\<open>fetchInstagramMedia\<close> can do: \<^verbatim>\<open>fetch\<close> rejects, or
  \<^verbatim>\<open>response.json()\<close> rejects, or a JSON value is parsed.
\<close>

datatype fetch_outcome = NetworkError | JsonParseError | Parsed jsval

section \<open>CORS headers and the JSON response helper\<close>

text \<open>
  \<^verbatim>\<open>h || d\<close> for a header value \<open>h\<close> and a string \<open>d\<close>: \<^verbatim>\<open>null\<close> and the empty string are
  falsy.
\<close>

definition or_else :: "string option \<Rightarrow> string \<Rightarrow> string" where
  "or_else h d = (case h of None \<Rightarrow> d | Some s \<Rightarrow> if s = [] then d else s)"

text \<open>\<^verbatim>\<open>setCorsHeaders\<close>, lines 102 to 116.\<close>

definition setCorsHeaders :: "config \<Rightarrow> string option \<Rightarrow> (string \<rightharpoonup> string)" where
  "setCorsHeaders cfg requestOrigin =
     (let headers = [''Access-Control-Allow-Methods'' \<mapsto> ''GET, POST, OPTIONS'',
                     ''Access-Control-Allow-Headers'' \<mapsto> ''Content-Type, Authorization'']
      in case requestOrigin of
           None \<Rightarrow> headers
         | Some origin \<Rightarrow>
             if origin \<noteq> [] \<and> ''*'' \<in> set (ALLOWED_ORIGINS cfg)
               then headers(''Access-Control-Allow-Origin'' \<mapsto> ''*'')
             else if origin \<noteq> [] \<and> origin \<in> set (ALLOWED_ORIGINS cfg)
               then headers(''Access-Control-Allow-Origin'' \<mapsto> origin)
             else headers)"

text \<open>\<^verbatim>\<open>jsonResponse\<close>, lines 126 to 134.\<close>

definition jsonResponse :: "config \<Rightarrow> ApiResponse \<Rightarrow> nat \<Rightarrow> string option \<Rightarrow> response" where
  "jsonResponse cfg d st requestOrigin =
     \<lparr>status = st,
      headers = (setCorsHeaders cfg requestOrigin)(''Content-Type'' \<mapsto> ''application/json''),
      body = Some d\<rparr>"

text \<open>A failure envelope \<^verbatim>\<open>{ success: false, error, errorCode }\<close>.\<close>

definition failure :: "string \<Rightarrow> string \<Rightarrow> ApiResponse" where
  "failure msg code = \<lparr>success = False, data = None, error = Some msg, errorCode = Some code\<rparr>"

section \<open>The upstream call\<close>

text \<open>
  The callback of \<^verbatim>\<open>medias.map\<close>, lines 162 to 166.  Reading a property of a
  \<^verbatim>\<open>null\<close> element throws.
\<close>

definition normalize_media :: "jsval \<Rightarrow> DownloadOption option" where
  "normalize_media media =
     do {
       q \<leftarrow> js_get media ''quality'';
       u \<leftarrow> js_get media ''url'';
       f \<leftarrow> js_get media ''formattedSize'';
       Some \<lparr>quality = js_or q (JStr ''default''), url = u, size_str = js_or f (JStr ''unknown'')\<rparr>
     }"

text \<open>The elements in order; the first callback that throws ends the loop.\<close>

fun map_throwing :: "('a \<Rightarrow> 'b option) \<Rightarrow> 'a list \<Rightarrow> 'b list option" where
  "map_throwing f [] = Some []"
| "map_throwing f (x # xs) =
     (case f x of None \<Rightarrow> None
      | Some y \<Rightarrow> (case map_throwing f xs of None \<Rightarrow> None | Some ys \<Rightarrow> Some (y # ys)))"

text \<open>
  \<^verbatim>\<open>medias.map(callback)\<close> for a truthy \<^verbatim>\<open>medias\<close>: only an array has a \<^verbatim>\<open>map\<close> method;
  on anything else the call throws a TypeError (a JSON object may have a property
  \<^verbatim>\<open>map\<close>, but never a function).
\<close>

fun js_array_map :: "(jsval \<Rightarrow> 'b option) \<Rightarrow> jsval \<Rightarrow> 'b list option" where
  "js_array_map f (JArr xs) = map_throwing f xs"
| "js_array_map f v = None"

text \<open>
  The body of the \<^verbatim>\<open>try\<close> block of \<^verbatim>\<open>fetchInstagramMedia\<close>, lines 139 to 176, on the
  outcome of the two awaits; \<open>None\<close> is an exception that reaches the \<^verbatim>\<open>catch\<close>.
\<close>

definition NO_MEDIA_FOUND :: ApiResponse where
  "NO_MEDIA_FOUND =
     failure ''No media found or invalid Instagram URL. Please check the URL and try again.''
       ''NO_MEDIA_FOUND''"

definition FETCH_FAILED :: ApiResponse where
  "FETCH_FAILED =
     failure ''Failed to fetch Instagram media. The external service might be unavailable or the URL is not supported.''
       ''FETCH_FAILED''"

definition fetch_try :: "fetch_outcome \<Rightarrow> jsval \<Rightarrow> ApiResponse option" where
  "fetch_try outcome u =
     (case outcome of
        NetworkError \<Rightarrow> None
      | JsonParseError \<Rightarrow> None
      | Parsed result \<Rightarrow>
          do {
            st \<leftarrow> js_get result ''status'';
            if \<not> truthy st then Some NO_MEDIA_FOUND
            else do {
              d \<leftarrow> js_get result ''data'';
              if \<not> truthy d then Some NO_MEDIA_FOUND
              else do {
                medias \<leftarrow> js_get d ''medias'';
                if \<not> truthy medias then Some NO_MEDIA_FOUND
                else do {
                  len \<leftarrow> js_get medias ''length'';
                  if len = JNum 0 then Some NO_MEDIA_FOUND
                  else do {
                    mediaList \<leftarrow> js_array_map normalize_media medias;
                    ty \<leftarrow> js_get d ''type'';
                    th \<leftarrow> js_get d ''thumbnail'';
                    Some \<lparr>success = True,
                          data = Some \<lparr>media_type = js_or ty (JStr ''post''),
                                       originalUrl = u,
                                       thumbnail = th,
                                       downloadOptions = mediaList\<rparr>,
                          error = None,
                          errorCode = None\<rparr>
                  }
                }
              }
            }
          })"

text \<open>
  \<^verbatim>\<open>fetchInstagramMedia\<close>, lines 137 to 185.  The upstream service is a parameter: what
  the call gives for the query string sent.
\<close>

definition fetchInstagramMedia :: "(string \<Rightarrow> fetch_outcome) \<Rightarrow> jsval \<Rightarrow> ApiResponse" where
  "fetchInstagramMedia upstream u =
     (case fetch_try (upstream (js_toString u)) u of
        None \<Rightarrow> FETCH_FAILED
      | Some r \<Rightarrow> r)"

section \<open>The handler\<close>

text \<open>\<^verbatim>\<open>clientIp\<close>, line 190.\<close>

definition clientIp :: "request \<Rightarrow> string" where
  "clientIp req =
     or_else (hdr_X_Forwarded_For req)
       (or_else (hdr_X_Real_IP req) (or_else (hdr_CF_Connecting_IP req) ''unknown-ip''))"

text \<open>Step 2, line 201: the origin is present and neither the wildcard nor the origin is listed.\<close>

definition origin_blocked :: "config \<Rightarrow> string option \<Rightarrow> bool" where
  "origin_blocked cfg requestOrigin =
     (case requestOrigin of
        None \<Rightarrow> False
      | Some origin \<Rightarrow>
          origin \<noteq> [] \<and> ''*'' \<notin> set (ALLOWED_ORIGINS cfg) \<and> origin \<notin> set (ALLOWED_ORIGINS cfg))"

text \<open>\<^verbatim>\<open>String.prototype.split\<close> with a one-character separator.\<close>

fun split_on :: "char \<Rightarrow> string \<Rightarrow> string list" where
  "split_on c [] = [[]]"
| "split_on c (x # xs) =
     (if x = c then [] # split_on c xs
      else (case split_on c xs of [] \<Rightarrow> [[x]] | w # ws \<Rightarrow> (x # w) # ws))"

text \<open>An array read \<^verbatim>\<open>xs[i]\<close>: \<^verbatim>\<open>undefined\<close> (\<open>None\<close>) out of range.\<close>

definition js_index :: "'a list \<Rightarrow> nat \<Rightarrow> 'a option" where
  "js_index xs i = (if i < length xs then Some (xs ! i) else None)"

text \<open>\<^verbatim>\<open>authHeader.startsWith('Bearer ')\<close> and the token of line 221.\<close>

definition startsWith :: "string \<Rightarrow> string \<Rightarrow> bool" where
  "startsWith s p = (take (length p) s = p)"

definition bearer_token :: "string \<Rightarrow> string option" where
  "bearer_token authHeader = js_index (split_on CHR '' '' authHeader) 1"

text \<open>\<^verbatim>\<open>REQUIRED_API_KEY && token !== REQUIRED_API_KEY\<close>, line 222.\<close>

definition api_key_mismatch :: "config \<Rightarrow> string option \<Rightarrow> bool" where
  "api_key_mismatch cfg token =
     (case REQUIRED_API_KEY cfg of
        None \<Rightarrow> False
      | Some k \<Rightarrow> k \<noteq> [] \<and> token \<noteq> Some k)"

text \<open>\<^verbatim>\<open>rateLimitKey\<close>, line 233.\<close>

definition rateLimitKey :: "string option \<Rightarrow> string \<Rightarrow> string" where
  "rateLimitKey token ip = or_else token ip"

text \<open>
  Step 4, lines 235 to 252, on the store: whether the request is admitted, and the store
  afterwards.  The entry read from the map is the stored object itself, so
  \<^verbatim>\<open>entry.count++\<close> already changes the store, before the comparison with the maximum.
\<close>

definition rate_limit :: "config \<Rightarrow> store \<Rightarrow> string \<Rightarrow> int \<Rightarrow> bool \<times> store" where
  "rate_limit cfg st key now =
     (let fresh = \<lparr>count = 1, resetTime = now + RATE_LIMIT_WINDOW_SECONDS cfg * 1000\<rparr>
      in case st key of
           None \<Rightarrow> (True, st(key \<mapsto> fresh))
         | Some entry \<Rightarrow>
             if now > resetTime entry then (True, st(key \<mapsto> fresh))
             else
               let entry' = entry\<lparr>count := count entry + 1\<rparr>;
                   st' = st(key \<mapsto> entry')
               in if count entry' > RATE_LIMIT_MAX_REQUESTS cfg then (False, st')
                  else (True, st'))"

text \<open>
  Step 5, lines 257 to 293.  Destructuring \<^verbatim>\<open>null\<close> throws like a rejected
  \<^verbatim>\<open>req.json()\<close>, and both reach the \<^verbatim>\<open>catch\<close>.
\<close>

definition process_request_body ::
  "config \<Rightarrow> (string \<Rightarrow> fetch_outcome) \<Rightarrow> string option \<Rightarrow> request \<Rightarrow> response" where
  "process_request_body cfg upstream requestOrigin req =
     (case Option.bind (json_body req) (\<lambda>b. js_get b ''url'') of
        None \<Rightarrow>
          jsonResponse cfg
            (failure ''Invalid request body or internal server error.'' ''INTERNAL_ERROR'')
            500 requestOrigin
      | Some u \<Rightarrow>
          if \<not> truthy u then
            jsonResponse cfg
              (failure ''URL is required in the request body.'' ''URL_REQUIRED'') 400 requestOrigin
          else if \<not> isValidInstagramUrl u then
            jsonResponse cfg
              (failure ''Please enter a valid Instagram post, reel, or IGTV URL (e.g., https://www.instagram.com/p/...).''
                 ''INVALID_INSTAGRAM_URL'')
              400 requestOrigin
          else
            let result = fetchInstagramMedia upstream u;
                st = (if success result then 200
                      else if errorCode result = Some ''NO_MEDIA_FOUND'' then 404 else 500)
            in jsonResponse cfg result st requestOrigin)"

text \<open>Steps 4 and 5, lines 231 to 294, for a request that passed authentication.\<close>

definition rate_limiting ::
  "config \<Rightarrow> (string \<Rightarrow> fetch_outcome) \<Rightarrow> int \<Rightarrow> store \<Rightarrow> request \<Rightarrow> string option
     \<Rightarrow> response \<times> store" where
  "rate_limiting cfg upstream now st req token =
     (let requestOrigin = hdr_Origin req;
          key = rateLimitKey token (clientIp req)
      in case rate_limit cfg st key now of
           (False, st') \<Rightarrow>
             (jsonResponse cfg
                (failure ''Too many requests. Please try again later.'' ''RATE_LIMITED'')
                429 requestOrigin, st')
         | (True, st') \<Rightarrow> (process_request_body cfg upstream requestOrigin req, st'))"

text \<open>Steps 3 to 5, lines 210 to 294, for a request that passed the origin check.\<close>

definition api_key_authentication ::
  "config \<Rightarrow> (string \<Rightarrow> fetch_outcome) \<Rightarrow> int \<Rightarrow> store \<Rightarrow> request \<Rightarrow> response \<times> store" where
  "api_key_authentication cfg upstream now st req =
     (let requestOrigin = hdr_Origin req
      in case hdr_Authorization req of
           None \<Rightarrow>
             (jsonResponse cfg
                (failure ''Authentication required. Please provide a valid Bearer token.''
                   ''AUTH_REQUIRED'')
                401 requestOrigin, st)
         | Some authHeader \<Rightarrow>
             if authHeader = [] \<or> \<not> startsWith authHeader ''Bearer '' then
               (jsonResponse cfg
                  (failure ''Authentication required. Please provide a valid Bearer token.''
                     ''AUTH_REQUIRED'')
                  401 requestOrigin, st)
             else
               let token = bearer_token authHeader
               in if api_key_mismatch cfg token then
                    (jsonResponse cfg (failure ''Invalid API key.'' ''INVALID_API_KEY'')
                       401 requestOrigin, st)
                  else rate_limiting cfg upstream now st req token)"

text \<open>
  The handler passed to \<^verbatim>\<open>serve\<close>, lines 188 to 294: the response and the store
  afterwards.  \<open>now\<close> is the value \<^verbatim>\<open>Date.now()\<close> gives at line 234.  The pre-flight
  response is built without a status, and a \<^verbatim>\<open>Response\<close> built without one has
  status 200.
\<close>

definition serve_handler ::
  "config \<Rightarrow> (string \<Rightarrow> fetch_outcome) \<Rightarrow> int \<Rightarrow> store \<Rightarrow> request \<Rightarrow> response \<times> store" where
  "serve_handler cfg upstream now st req =
     (let requestOrigin = hdr_Origin req
      in if http_method req = ''OPTIONS'' then
           (\<lparr>status = 200, headers = setCorsHeaders cfg requestOrigin, body = None\<rparr>, st)
         else if origin_blocked cfg requestOrigin then
           (jsonResponse cfg (failure ''Unauthorized origin.'' ''UNAUTHORIZED_ORIGIN'')
              403 requestOrigin, st)
         else api_key_authentication cfg upstream now st req)"

section \<open>The first variant of the function\<close>

text \<open>
  The file also holds an earlier variant of the function (lines 1 to 87), without origin
  check, authentication and rate limiter.  Its bodies are plain objects: \<^verbatim>\<open>{ error }\<close>
  from the handler, and \<^verbatim>\<open>{ success, error }\<close> or \<^verbatim>\<open>{ success, data }\<close> from its
  \<^verbatim>\<open>fetchInstagramMedia\<close>; no path sets a code.  The message of a caught exception is
  not determined by the code and is a parameter.
\<close>

record v1_media =
  v1_type :: jsval
  v1_url :: jsval
  v1_thumbnail :: jsval
  v1_downloadOptions :: "DownloadOption list"

record v1_body =
  v1_success :: "bool option"
  v1_data :: "v1_media option"
  v1_error :: "string option"

record v1_response =
  v1_status :: nat
  v1_headers :: "string \<rightharpoonup> string"
  v1_sent :: "v1_body option"

text \<open>The constant \<^verbatim>\<open>corsHeaders\<close>, lines 3 to 7.\<close>

definition corsHeaders :: "string \<rightharpoonup> string" where
  "corsHeaders =
     [''Access-Control-Allow-Origin'' \<mapsto> ''*'',
      ''Access-Control-Allow-Methods'' \<mapsto> ''GET, POST, OPTIONS'',
      ''Access-Control-Allow-Headers'' \<mapsto> ''Content-Type, Authorization'']"

text \<open>\<^verbatim>\<open>/r/.test(s)\<close> for a pattern without anchors: some part of the string matches.\<close>

definition regex_test :: "regex \<Rightarrow> string \<Rightarrow> bool" where
  "regex_test r s =
     regex_test_anchored (Cat (Star (Class (\<lambda>c. True))) (Cat r (Star (Class (\<lambda>c. True))))) s"

text \<open>The \<^verbatim>\<open>try\<close> block of the first \<^verbatim>\<open>fetchInstagramMedia\<close>, lines 11 to 42.\<close>

definition v1_fetch_try :: "fetch_outcome \<Rightarrow> jsval \<Rightarrow> v1_body option" where
  "v1_fetch_try outcome u =
     (let no_media = \<lparr>v1_success = Some False, v1_data = None,
                      v1_error = Some ''No media found or invalid Instagram URL.''\<rparr>
      in case outcome of
        NetworkError \<Rightarrow> None
      | JsonParseError \<Rightarrow> None
      | Parsed result \<Rightarrow>
          do {
            st \<leftarrow> js_get result ''status'';
            if \<not> truthy st then Some no_media
            else do {
              d \<leftarrow> js_get result ''data'';
              if \<not> truthy d then Some no_media
              else do {
                medias \<leftarrow> js_get d ''medias'';
                if \<not> truthy medias then Some no_media
                else do {
                  len \<leftarrow> js_get medias ''length'';
                  if len = JNum 0 then Some no_media
                  else do {
                    mediaList \<leftarrow> js_array_map normalize_media medias;
                    ty \<leftarrow> js_get d ''type'';
                    th \<leftarrow> js_get d ''thumbnail'';
                    Some \<lparr>v1_success = Some True,
                          v1_data = Some \<lparr>v1_type = js_or ty (JStr ''post''),
                                          v1_url = u,
                                          v1_thumbnail = th,
                                          v1_downloadOptions = mediaList\<rparr>,
                          v1_error = None\<rparr>
                  }
                }
              }
            }
          })"

text \<open>The first \<^verbatim>\<open>fetchInstagramMedia\<close>, lines 9 to 49.\<close>

definition v1_fetchInstagramMedia ::
  "(string \<Rightarrow> fetch_outcome) \<Rightarrow> string \<Rightarrow> jsval \<Rightarrow> v1_body" where
  "v1_fetchInstagramMedia upstream exn_message u =
     (case v1_fetch_try (upstream (js_toString u)) u of
        None \<Rightarrow> \<lparr>v1_success = Some False, v1_data = None, v1_error = Some exn_message\<rparr>
      | Some r \<Rightarrow> r)"

text \<open>
  The handler passed to \<^verbatim>\<open>Deno.serve\<close>, lines 51 to 87.  The last response is built
  without a status, whatever the result.
\<close>

definition v1_handler ::
  "(string \<Rightarrow> fetch_outcome) \<Rightarrow> string \<Rightarrow> string \<Rightarrow> request \<Rightarrow> v1_response" where
  "v1_handler upstream body_exn_message fetch_exn_message req =
     (let json_headers = corsHeaders(''Content-Type'' \<mapsto> ''application/json'');
          only_error = (\<lambda>msg. \<lparr>v1_success = None, v1_data = None, v1_error = Some msg\<rparr>)
      in if http_method req = ''OPTIONS'' then
           \<lparr>v1_status = 200, v1_headers = corsHeaders, v1_sent = None\<rparr>
         else
           case Option.bind (json_body req) (\<lambda>b. js_get b ''url'') of
             None \<Rightarrow>
               \<lparr>v1_status = 500, v1_headers = json_headers,
                v1_sent = Some (only_error body_exn_message)\<rparr>
           | Some u \<Rightarrow>
               if \<not> truthy u then
                 \<lparr>v1_status = 400, v1_headers = json_headers,
                  v1_sent = Some (only_error ''URL is required'')\<rparr>
               else if \<not> regex_test (lits ''instagram.com'') (js_toString u) then
                 \<lparr>v1_status = 400, v1_headers = json_headers,
                  v1_sent = Some (only_error ''Please enter a valid Instagram URL'')\<rparr>
               else
                 \<lparr>v1_status = 200, v1_headers = json_headers,
                  v1_sent = Some (v1_fetchInstagramMedia upstream fetch_exn_message u)\<rparr>)"

section \<open>Notions used to state the properties\<close>

text \<open>The machine-readable code of a response, if its body has one.\<close>

definition response_code :: "response \<Rightarrow> string option" where
  "response_code r = Option.bind (body r) errorCode"

text \<open>
  The requests that reach step 4, in the order they arrive, each with its identity and
  its arrival time: whether each is admitted, and the store after the last.
\<close>

fun rate_run :: "config \<Rightarrow> store \<Rightarrow> (string \<times> int) list \<Rightarrow> bool list \<times> store" where
  "rate_run cfg st [] = ([], st)"
| "rate_run cfg st ((k, t) # rs) =
     (case rate_limit cfg st k t of
        (a, st') \<Rightarrow> (case rate_run cfg st' rs of (as, st'') \<Rightarrow> (a # as, st'')))"

text \<open>How many of the requests carry the identity \<open>k\<close>.\<close>

definition requests_of :: "string \<Rightarrow> (string \<times> int) list \<Rightarrow> int" where
  "requests_of k rs = int (length (filter (\<lambda>r. fst r = k) rs))"





text \<open>A field of an upstream item: \<^verbatim>\<open>undefined\<close> when the item does not have it.\<close>

definition field :: "jsval \<Rightarrow> string \<Rightarrow> jsval" where
  "field v k = (case js_get v k of None \<Rightarrow> JUndefined | Some x \<Rightarrow> x)"

text \<open>
  The download option of an upstream item in words: \<^verbatim>\<open>quality\<close> and \<^verbatim>\<open>url\<close> are kept,
  \<^verbatim>\<open>formattedSize\<close> becomes the size, and a quality or size that is absent or falsy
  (\<^verbatim>\<open>null\<close>, \<^verbatim>\<open>false\<close>, \<^verbatim>\<open>0\<close>, the empty string) is replaced by its default.
\<close>

definition option_of_item :: "jsval \<Rightarrow> DownloadOption" where
  "option_of_item m =
     \<lparr>quality = (if truthy (field m ''quality'') then field m ''quality'' else JStr ''default''),
      url = field m ''url'',
      size_str = (if truthy (field m ''formattedSize'') then field m ''formattedSize''
                  else JStr ''unknown'')\<rparr>"

text \<open>The first header value of a list that is present and not empty.\<close>

fun first_nonempty :: "string option list \<Rightarrow> string option" where
  "first_nonempty [] = None"
| "first_nonempty (h # hs) =
     (case h of None \<Rightarrow> first_nonempty hs
      | Some s \<Rightarrow> if s \<noteq> [] then Some s else first_nonempty hs)"

text \<open>
  The rate-limit identity in words: the token when it is not empty, else the first
  non-empty value among \<^verbatim>\<open>X-Forwarded-For\<close>, \<^verbatim>\<open>X-Real-IP\<close> and \<^verbatim>\<open>CF-Connecting-IP\<close>,
  else the sentinel.
\<close>

definition identity_of :: "request \<Rightarrow> string \<Rightarrow> string" where
  "identity_of req token =
     (if token \<noteq> [] then token
      else case first_nonempty [hdr_X_Forwarded_For req, hdr_X_Real_IP req, hdr_CF_Connecting_IP req] of
             Some ip \<Rightarrow> ip
           | None \<Rightarrow> ''unknown-ip'')"

text \<open>
  The token of a bearer header in words: what follows \<^verbatim>\<open>Bearer \<close>, up to the next space.
\<close>

definition token_of :: "string \<Rightarrow> string" where
  "token_of authHeader = takeWhile (\<lambda>c. c \<noteq> CHR '' '') (drop 7 authHeader)"

text \<open>
  The invariant of the envelope: either a success with data and neither message nor
  code, or a failure without data, with a non-empty message and a non-empty code.
\<close>

definition envelope_ok :: "ApiResponse \<Rightarrow> bool" where
  "envelope_ok e =
     ((success e \<and> data e \<noteq> None \<and> error e = None \<and> errorCode e = None)
      \<or> (\<not> success e \<and> data e = None
          \<and> (case error e of None \<Rightarrow> False | Some m \<Rightarrow> m \<noteq> [])
          \<and> (case errorCode e of None \<Rightarrow> False | Some c \<Rightarrow> c \<noteq> [])))"


text \<open>
  A usable upstream response with the items \<open>ms\<close>: truthy \<^verbatim>\<open>status\<close> and \<^verbatim>\<open>data\<close>, and
  \<^verbatim>\<open>medias\<close> a non-empty list without \<^verbatim>\<open>null\<close> items.
\<close>

definition usable_media :: "jsval \<Rightarrow> jsval list \<Rightarrow> bool" where
  "usable_media result ms =
     (truthy (field result ''status'')
      \<and> truthy (field result ''data'')
      \<and> field (field result ''data'') ''medias'' = JArr ms
      \<and> ms \<noteq> [] \<and> JNull \<notin> set ms \<and> JUndefined \<notin> set ms)"

section \<open>Example inputs\<close>

definition example_config :: config where
  "example_config =
     \<lparr>ALLOWED_ORIGINS = [''https://app.example''], REQUIRED_API_KEY = Some ''secret'',
      RATE_LIMIT_WINDOW_SECONDS = 60, RATE_LIMIT_MAX_REQUESTS = 3\<rparr>"

text \<open>The configuration when no variable is set.\<close>

definition default_config :: config where
  "default_config =
     \<lparr>ALLOWED_ORIGINS = [''*''], REQUIRED_API_KEY = None,
      RATE_LIMIT_WINDOW_SECONDS = 60, RATE_LIMIT_MAX_REQUESTS = 10\<rparr>"

definition example_request :: request where
  "example_request =
     \<lparr>http_method = ''POST'', hdr_Origin = Some ''https://app.example'',
      hdr_X_Forwarded_For = Some ''203.0.113.7'', hdr_X_Real_IP = None,
      hdr_CF_Connecting_IP = None, hdr_Authorization = Some ''Bearer secret'',
      json_body = Some (JObj [(''url'', JStr ''https://www.instagram.com/p/ABC123/'')])\<rparr>"

definition example_item :: jsval where
  "example_item =
     JObj [(''quality'', JStr ''hd''), (''url'', JStr ''x.mp4''), (''formattedSize'', JStr ''2MB'')]"

definition example_payload :: jsval where
  "example_payload =
     JObj [(''status'', JStr ''ok''),
           (''data'', JObj [(''thumbnail'', JStr ''t.jpg''), (''medias'', JArr [example_item])])]"

definition example_store :: store where
  "example_store = [''secret'' \<mapsto> \<lparr>count = 3, resetTime = 1000\<rparr>]"

section \<open>Basic facts about the handler\<close>

lemma failure_sel [simp]:
  "success (failure m c) = False" "data (failure m c) = None"
  "error (failure m c) = Some m" "errorCode (failure m c) = Some c"
  by (simp_all add: failure_def)

lemma jsonResponse_sel [simp]:
  "status (jsonResponse cfg d s ro) = s"
  "body (jsonResponse cfg d s ro) = Some d"
  "response_code (jsonResponse cfg d s ro) = errorCode d"
  by (simp_all add: jsonResponse_def response_code_def)

lemma fetchInstagramMedia_cases:
  "fetchInstagramMedia upstream u = NO_MEDIA_FOUND \<or> fetchInstagramMedia upstream u = FETCH_FAILED
   \<or> (success (fetchInstagramMedia upstream u) \<and> errorCode (fetchInstagramMedia upstream u) = None
        \<and> error (fetchInstagramMedia upstream u) = None
        \<and> data (fetchInstagramMedia upstream u) \<noteq> None)"
  by (auto simp: fetchInstagramMedia_def fetch_try_def
           split: option.splits fetch_outcome.splits bind_splits if_splits)

lemma fetchInstagramMedia_code:
  "errorCode (fetchInstagramMedia upstream u)
     \<in> {None, Some ''NO_MEDIA_FOUND'', Some ''FETCH_FAILED''}"
  using fetchInstagramMedia_cases [of upstream u]
  by (auto simp: NO_MEDIA_FOUND_def FETCH_FAILED_def)

lemma process_request_body_code:
  "response_code (process_request_body cfg upstream ro req) \<in>
     {None, Some ''INTERNAL_ERROR'', Some ''URL_REQUIRED'', Some ''INVALID_INSTAGRAM_URL'',
      Some ''NO_MEDIA_FOUND'', Some ''FETCH_FAILED''}"
proof (cases "Option.bind (json_body req) (\<lambda>b. js_get b ''url'')")
  case None
  then show ?thesis by (simp add: process_request_body_def)
next
  case (Some u)
  show ?thesis
    using fetchInstagramMedia_code [of upstream u] Some
    by (auto simp: process_request_body_def Let_def)
qed

lemma rate_limiting_code:
  "response_code (fst (rate_limiting cfg upstream now st req token)) \<in>
     {None, Some ''RATE_LIMITED'', Some ''INTERNAL_ERROR'', Some ''URL_REQUIRED'',
      Some ''INVALID_INSTAGRAM_URL'', Some ''NO_MEDIA_FOUND'', Some ''FETCH_FAILED''}"
  using process_request_body_code [of cfg upstream "hdr_Origin req" req]
  by (auto simp: rate_limiting_def Let_def split: prod.splits bool.splits)

lemma rate_limiting_not_early:
  "response_code (fst (rate_limiting cfg upstream now st req token))
     \<notin> {Some ''UNAUTHORIZED_ORIGIN'', Some ''AUTH_REQUIRED'', Some ''INVALID_API_KEY''}"
  using rate_limiting_code [of cfg upstream now st req token] by auto

lemma split_on_takeWhile:
  "\<exists>ws. split_on c s = takeWhile (\<lambda>x. x \<noteq> c) s # ws"
  by (induction s) (auto split: list.splits)

lemma bearer_token_eq:
  assumes "startsWith h ''Bearer ''"
  shows "bearer_token h = Some (token_of h)"
proof -
  from assms have h: "h = ''Bearer '' @ drop 7 h"
  proof -
    have len: "length ''Bearer '' = 7" by simp
    have "take (length ''Bearer '') h = ''Bearer ''" using assms by (simp only: startsWith_def)
    then have "take 7 h = ''Bearer ''" by (simp only: len)
    then show ?thesis using append_take_drop_id [of 7 h] by (simp only:)
  qed
  obtain ws where ws: "split_on CHR '' '' (drop 7 h) = token_of h # ws"
    using split_on_takeWhile [of "CHR '' ''" "drop 7 h"] by (auto simp: token_of_def)
  have "split_on CHR '' '' (''Bearer '' @ drop 7 h) = ''Bearer'' # token_of h # ws"
    by (simp add: ws)
  with h have "split_on CHR '' '' h = ''Bearer'' # token_of h # ws" by simp
  then show ?thesis by (simp add: bearer_token_def js_index_def)
qed

lemma rate_limiting_snd:
  "snd (rate_limiting cfg upstream now st req token)
     = snd (rate_limit cfg st (rateLimitKey token (clientIp req)) now)"
  by (simp add: rate_limiting_def Let_def split: prod.splits bool.splits)

lemma rate_limiting_fst:
  "fst (rate_limiting cfg upstream now st req token)
     = (if fst (rate_limit cfg st (rateLimitKey token (clientIp req)) now)
        then process_request_body cfg upstream (hdr_Origin req) req
        else jsonResponse cfg
               (failure ''Too many requests. Please try again later.'' ''RATE_LIMITED'')
               429 (hdr_Origin req))"
  by (simp add: rate_limiting_def Let_def split: prod.splits bool.splits)

lemma rate_limit_store:
  "\<exists>e. snd (rate_limit cfg st k now) = st(k \<mapsto> e)"
  by (auto simp: rate_limit_def Let_def split: option.splits)

lemma rateLimitKey_identity:
  "rateLimitKey (Some t) (clientIp req) = identity_of req t"
  by (simp add: rateLimitKey_def clientIp_def identity_of_def or_else_def split: option.splits)

lemma serve_handler_authenticated:
  assumes "http_method req \<noteq> ''OPTIONS''" "\<not> origin_blocked cfg (hdr_Origin req)"
    "hdr_Authorization req = Some h" "startsWith h ''Bearer ''"
    "\<not> api_key_mismatch cfg (Some (token_of h))"
  shows "serve_handler cfg upstream now st req
           = rate_limiting cfg upstream now st req (Some (token_of h))"
proof -
  from assms(4) have "h \<noteq> []" by (auto simp: startsWith_def)
  with assms bearer_token_eq [OF assms(4)] show ?thesis
    by (simp add: serve_handler_def api_key_authentication_def)
qed

lemma example_url_valid:
  "isValidInstagramUrl (JStr ''https://www.instagram.com/p/ABC123/'')"
  by code_simp

section \<open>Pre-flight requests\<close>

text \<open>
  C7, as the code has it.  A request with method \<^verbatim>\<open>OPTIONS\<close> gets a response with no body
  that carries exactly the computed CORS headers, whatever its \<^verbatim>\<open>Authorization\<close> header
  and its origin are, and the rate-limiter store is left as it was.  The response is
  built without a status, so its status is 200.
\<close>

theorem preflight_response:
  "http_method req = ''OPTIONS'' \<Longrightarrow>
   serve_handler cfg upstream now st req =
     (\<lparr>status = 200, headers = setCorsHeaders cfg (hdr_Origin req), body = None\<rparr>, st)"
  by (simp add: serve_handler_def)

text \<open>
  The pre-flight of a request from an origin that is not allowed, with no credential,
  against a store that holds an exhausted entry.
\<close>

theorem preflight_response_witness:
  "http_method (example_request\<lparr>http_method := ''OPTIONS'', hdr_Origin := Some ''https://evil.example'',
                            hdr_Authorization := None\<rparr>) = ''OPTIONS''
   \<and> serve_handler example_config (\<lambda>q. NetworkError) 0 example_store
        (example_request\<lparr>http_method := ''OPTIONS'', hdr_Origin := Some ''https://evil.example'',
                          hdr_Authorization := None\<rparr>)
      = (\<lparr>status = 200,
          headers = [''Access-Control-Allow-Methods'' \<mapsto> ''GET, POST, OPTIONS'',
                     ''Access-Control-Allow-Headers'' \<mapsto> ''Content-Type, Authorization''],
          body = None\<rparr>, example_store)"
  using preflight_response
    [of "example_request\<lparr>http_method := ''OPTIONS'', hdr_Origin := Some ''https://evil.example'',
                          hdr_Authorization := None\<rparr>"
        example_config "\<lambda>q. NetworkError" 0 example_store]
  by (simp add: example_request_def example_config_def setCorsHeaders_def)

text \<open>C7 as stated asks for status 204; the pre-flight response has another status.\<close>

theorem preflight_status_not_204:
  "status (fst (serve_handler example_config (\<lambda>q. NetworkError) 0 Map.empty
                  (example_request\<lparr>http_method := ''OPTIONS''\<rparr>))) \<noteq> 204"
  by (simp add: serve_handler_def example_request_def)

section \<open>Rejections before the rate limiter\<close>

text \<open>
  C10.  A request answered with \<^verbatim>\<open>UNAUTHORIZED_ORIGIN\<close>, \<^verbatim>\<open>AUTH_REQUIRED\<close> or
  \<^verbatim>\<open>INVALID_API_KEY\<close> leaves the rate-limiter store unchanged, for every identity: these
  rejections consume no slot.
\<close>

theorem early_rejection_keeps_store:
  assumes "response_code (fst (serve_handler cfg upstream now st req))
             \<in> {Some ''UNAUTHORIZED_ORIGIN'', Some ''AUTH_REQUIRED'', Some ''INVALID_API_KEY''}"
  shows "snd (serve_handler cfg upstream now st req) = st"
proof (rule ccontr)
  assume changed: "snd (serve_handler cfg upstream now st req) \<noteq> st"
  then obtain h where
    "serve_handler cfg upstream now st req =
       rate_limiting cfg upstream now st req (bearer_token h)"
    by (auto simp: serve_handler_def api_key_authentication_def Let_def
             split: if_splits option.splits)
  with assms rate_limiting_not_early [of cfg upstream now st req "bearer_token h"]
  show False by simp
qed

text \<open>
  One request stopped at each of the three places: a foreign origin, a header that is
  not a bearer header, and a wrong key.
\<close>

theorem early_rejection_keeps_store_witness:
  "(response_code (fst (serve_handler example_config (\<lambda>q. NetworkError) 500 example_store
        (example_request\<lparr>hdr_Origin := Some ''https://evil.example''\<rparr>)))
      \<in> {Some ''UNAUTHORIZED_ORIGIN'', Some ''AUTH_REQUIRED'', Some ''INVALID_API_KEY''}
    \<and> snd (serve_handler example_config (\<lambda>q. NetworkError) 500 example_store
        (example_request\<lparr>hdr_Origin := Some ''https://evil.example''\<rparr>)) = example_store)
   \<and> (response_code (fst (serve_handler example_config (\<lambda>q. NetworkError) 500 example_store
        (example_request\<lparr>hdr_Authorization := Some ''Basic secret''\<rparr>)))
      \<in> {Some ''UNAUTHORIZED_ORIGIN'', Some ''AUTH_REQUIRED'', Some ''INVALID_API_KEY''}
    \<and> snd (serve_handler example_config (\<lambda>q. NetworkError) 500 example_store
        (example_request\<lparr>hdr_Authorization := Some ''Basic secret''\<rparr>)) = example_store)
   \<and> (response_code (fst (serve_handler example_config (\<lambda>q. NetworkError) 500 example_store
        (example_request\<lparr>hdr_Authorization := Some ''Bearer wrong''\<rparr>)))
      \<in> {Some ''UNAUTHORIZED_ORIGIN'', Some ''AUTH_REQUIRED'', Some ''INVALID_API_KEY''}
    \<and> snd (serve_handler example_config (\<lambda>q. NetworkError) 500 example_store
        (example_request\<lparr>hdr_Authorization := Some ''Bearer wrong''\<rparr>)) = example_store)"
proof -
  have a: "response_code (fst (serve_handler example_config (\<lambda>q. NetworkError) 500 example_store
        (example_request\<lparr>hdr_Origin := Some ''https://evil.example''\<rparr>)))
      \<in> {Some ''UNAUTHORIZED_ORIGIN'', Some ''AUTH_REQUIRED'', Some ''INVALID_API_KEY''}"
    by (simp add: serve_handler_def origin_blocked_def example_request_def example_config_def)
  have b: "response_code (fst (serve_handler example_config (\<lambda>q. NetworkError) 500 example_store
        (example_request\<lparr>hdr_Authorization := Some ''Basic secret''\<rparr>)))
      \<in> {Some ''UNAUTHORIZED_ORIGIN'', Some ''AUTH_REQUIRED'', Some ''INVALID_API_KEY''}"
    by (simp add: serve_handler_def api_key_authentication_def origin_blocked_def
          startsWith_def example_request_def example_config_def)
  have c: "response_code (fst (serve_handler example_config (\<lambda>q. NetworkError) 500 example_store
        (example_request\<lparr>hdr_Authorization := Some ''Bearer wrong''\<rparr>)))
      \<in> {Some ''UNAUTHORIZED_ORIGIN'', Some ''AUTH_REQUIRED'', Some ''INVALID_API_KEY''}"
    by (simp add: serve_handler_def api_key_authentication_def origin_blocked_def
          startsWith_def api_key_mismatch_def bearer_token_def js_index_def
          example_request_def example_config_def)
  show ?thesis
    using a b c early_rejection_keeps_store [OF a] early_rejection_keeps_store [OF b]
      early_rejection_keeps_store [OF c]
    by blast
qed

section \<open>Origin validation\<close>

text \<open>
  C8, as the code has it.  A request other than a pre-flight whose \<^verbatim>\<open>Origin\<close> header is
  present and not empty, with neither the wildcard nor that origin in the allow-list, is
  answered at step 2 with status 403 and code \<^verbatim>\<open>UNAUTHORIZED_ORIGIN\<close>; the response has
  no \<^verbatim>\<open>Access-Control-Allow-Origin\<close> header, and the store is unchanged.  The request
  does not reach the authentication step.
\<close>

theorem origin_rejection:
  assumes "http_method req \<noteq> ''OPTIONS''" "hdr_Origin req = Some origin" "origin \<noteq> []"
    "''*'' \<notin> set (ALLOWED_ORIGINS cfg)" "origin \<notin> set (ALLOWED_ORIGINS cfg)"
  shows "serve_handler cfg upstream now st req
           = (jsonResponse cfg (failure ''Unauthorized origin.'' ''UNAUTHORIZED_ORIGIN'') 403
                (Some origin), st)
         \<and> headers (fst (serve_handler cfg upstream now st req)) ''Access-Control-Allow-Origin'' = None
         \<and> status (fst (serve_handler cfg upstream now st req)) = 403
         \<and> response_code (fst (serve_handler cfg upstream now st req)) = Some ''UNAUTHORIZED_ORIGIN''"
  using assms
  by (simp add: serve_handler_def origin_blocked_def jsonResponse_def setCorsHeaders_def response_code_def)

theorem origin_rejection_witness:
  "status (fst (serve_handler example_config (\<lambda>q. Parsed example_payload) 0 Map.empty
        (example_request\<lparr>hdr_Origin := Some ''https://evil.example''\<rparr>))) = 403
   \<and> response_code (fst (serve_handler example_config (\<lambda>q. Parsed example_payload) 0 Map.empty
        (example_request\<lparr>hdr_Origin := Some ''https://evil.example''\<rparr>)))
       = Some ''UNAUTHORIZED_ORIGIN''
   \<and> headers (fst (serve_handler example_config (\<lambda>q. Parsed example_payload) 0 Map.empty
        (example_request\<lparr>hdr_Origin := Some ''https://evil.example''\<rparr>)))
        ''Access-Control-Allow-Origin'' = None
   \<and> snd (serve_handler example_config (\<lambda>q. Parsed example_payload) 0 Map.empty
        (example_request\<lparr>hdr_Origin := Some ''https://evil.example''\<rparr>)) = Map.empty"
  using origin_rejection [of "example_request\<lparr>hdr_Origin := Some ''https://evil.example''\<rparr>"
      "''https://evil.example''" example_config "\<lambda>q. Parsed example_payload" 0 Map.empty]
  by (simp add: example_request_def example_config_def jsonResponse_def setCorsHeaders_def
        response_code_def)

text \<open>
  C8 as stated lets such a request continue to the authentication step.  A request with
  the right key from a foreign origin would get status 200 there; the handler answers 403.
\<close>

theorem foreign_origin_stops_before_authentication:
  "serve_handler example_config (\<lambda>q. Parsed example_payload) 0 Map.empty
        (example_request\<lparr>hdr_Origin := Some ''https://evil.example''\<rparr>)
     \<noteq> api_key_authentication example_config (\<lambda>q. Parsed example_payload) 0 Map.empty
        (example_request\<lparr>hdr_Origin := Some ''https://evil.example''\<rparr>)"
proof -
  have "status (fst (serve_handler example_config (\<lambda>q. Parsed example_payload) 0 Map.empty
        (example_request\<lparr>hdr_Origin := Some ''https://evil.example''\<rparr>))) = 403"
    by (simp add: serve_handler_def origin_blocked_def example_request_def example_config_def)
  moreover have "status (fst (api_key_authentication example_config (\<lambda>q. Parsed example_payload) 0 Map.empty
        (example_request\<lparr>hdr_Origin := Some ''https://evil.example''\<rparr>))) = 200"
    by (simp add: api_key_authentication_def startsWith_def
        api_key_mismatch_def bearer_token_def js_index_def rate_limiting_fst rate_limit_def
        rateLimitKey_def clientIp_def or_else_def example_request_def example_config_def
        process_request_body_def example_url_valid fetchInstagramMedia_def fetch_try_def
        example_payload_def example_item_def normalize_media_def js_or_def Let_def)
  ultimately show ?thesis by auto
qed

section \<open>Authentication\<close>

text \<open>
  C3, as the code has it.  For a request other than a pre-flight that passed the origin
  check: without an \<^verbatim>\<open>Authorization\<close> header, or with one that does not start with
  \<^verbatim>\<open>Bearer \<close>, the response is 401 with code \<^verbatim>\<open>AUTH_REQUIRED\<close>; with a bearer header, a
  configured non-empty key and a token different from it, the response is 401 with code
  \<^verbatim>\<open>INVALID_API_KEY\<close>; with a bearer header and no key configured, or a token equal to
  the key, the request goes on to the rate limiter and is answered with neither code.
  In the first two cases the store is unchanged.
\<close>

theorem authentication_gate:
  assumes "http_method req \<noteq> ''OPTIONS''" and "\<not> origin_blocked cfg (hdr_Origin req)"
  shows
    "((hdr_Authorization req = None
        \<or> (hdr_Authorization req = Some h \<and> \<not> startsWith h ''Bearer ''))
      \<longrightarrow> serve_handler cfg upstream now st req
            = (jsonResponse cfg
                 (failure ''Authentication required. Please provide a valid Bearer token.''
                    ''AUTH_REQUIRED'')
                 401 (hdr_Origin req), st))
     \<and> ((hdr_Authorization req = Some h \<and> startsWith h ''Bearer ''
          \<and> REQUIRED_API_KEY cfg = Some k \<and> k \<noteq> [] \<and> token_of h \<noteq> k)
      \<longrightarrow> serve_handler cfg upstream now st req
            = (jsonResponse cfg (failure ''Invalid API key.'' ''INVALID_API_KEY'')
                 401 (hdr_Origin req), st))
     \<and> ((hdr_Authorization req = Some h \<and> startsWith h ''Bearer ''
          \<and> (REQUIRED_API_KEY cfg = None \<or> REQUIRED_API_KEY cfg = Some (token_of h)))
      \<longrightarrow> serve_handler cfg upstream now st req
              = rate_limiting cfg upstream now st req (Some (token_of h))
          \<and> response_code (fst (serve_handler cfg upstream now st req))
              \<notin> {Some ''AUTH_REQUIRED'', Some ''INVALID_API_KEY''})"
proof (intro conjI impI)
  assume "hdr_Authorization req = None
        \<or> (hdr_Authorization req = Some h \<and> \<not> startsWith h ''Bearer '')"
  with assms show "serve_handler cfg upstream now st req
            = (jsonResponse cfg
                 (failure ''Authentication required. Please provide a valid Bearer token.''
                    ''AUTH_REQUIRED'')
                 401 (hdr_Origin req), st)"
    by (auto simp: serve_handler_def api_key_authentication_def)
next
  assume a: "hdr_Authorization req = Some h \<and> startsWith h ''Bearer ''
          \<and> REQUIRED_API_KEY cfg = Some k \<and> k \<noteq> [] \<and> token_of h \<noteq> k"
  then have "h \<noteq> []" by (auto simp: startsWith_def)
  with a assms show "serve_handler cfg upstream now st req
            = (jsonResponse cfg (failure ''Invalid API key.'' ''INVALID_API_KEY'')
                 401 (hdr_Origin req), st)"
    by (simp add: serve_handler_def api_key_authentication_def bearer_token_eq
          api_key_mismatch_def)
next
  assume a: "hdr_Authorization req = Some h \<and> startsWith h ''Bearer ''
          \<and> (REQUIRED_API_KEY cfg = None \<or> REQUIRED_API_KEY cfg = Some (token_of h))"
  then have "\<not> api_key_mismatch cfg (Some (token_of h))"
    by (auto simp: api_key_mismatch_def)
  with a assms have eq: "serve_handler cfg upstream now st req
              = rate_limiting cfg upstream now st req (Some (token_of h))"
    by (simp add: serve_handler_authenticated)
  then show "serve_handler cfg upstream now st req
              = rate_limiting cfg upstream now st req (Some (token_of h))" .
  show "response_code (fst (serve_handler cfg upstream now st req))
              \<notin> {Some ''AUTH_REQUIRED'', Some ''INVALID_API_KEY''}"
    using rate_limiting_not_early [of cfg upstream now st req "Some (token_of h)"] eq
    by simp
qed

theorem authentication_gate_witness:
  "(status (fst (serve_handler example_config (\<lambda>q. NetworkError) 0 Map.empty
       (example_request\<lparr>hdr_Authorization := None\<rparr>))) = 401
    \<and> response_code (fst (serve_handler example_config (\<lambda>q. NetworkError) 0 Map.empty
       (example_request\<lparr>hdr_Authorization := None\<rparr>))) = Some ''AUTH_REQUIRED'')
   \<and> (status (fst (serve_handler example_config (\<lambda>q. NetworkError) 0 Map.empty
       (example_request\<lparr>hdr_Authorization := Some ''Bearer wrong''\<rparr>))) = 401
    \<and> response_code (fst (serve_handler example_config (\<lambda>q. NetworkError) 0 Map.empty
       (example_request\<lparr>hdr_Authorization := Some ''Bearer wrong''\<rparr>))) = Some ''INVALID_API_KEY'')
   \<and> response_code (fst (serve_handler default_config (\<lambda>q. NetworkError) 0 Map.empty
       (example_request\<lparr>hdr_Authorization := Some ''Bearer anything''\<rparr>)))
       \<notin> {Some ''AUTH_REQUIRED'', Some ''INVALID_API_KEY''}"
proof -
  have pre: "http_method (example_request\<lparr>hdr_Authorization := a\<rparr>) \<noteq> ''OPTIONS''"
    "\<not> origin_blocked example_config (hdr_Origin (example_request\<lparr>hdr_Authorization := a\<rparr>))"
    "\<not> origin_blocked default_config (hdr_Origin (example_request\<lparr>hdr_Authorization := a\<rparr>))"
    for a
    by (simp_all add: example_request_def example_config_def default_config_def
          origin_blocked_def)
  have absent: "hdr_Authorization (example_request\<lparr>hdr_Authorization := None\<rparr>) = None"
    by simp
  have wrong: "hdr_Authorization (example_request\<lparr>hdr_Authorization := Some ''Bearer wrong''\<rparr>)
        = Some ''Bearer wrong'' \<and> startsWith ''Bearer wrong'' ''Bearer ''
      \<and> REQUIRED_API_KEY example_config = Some ''secret'' \<and> ''secret'' \<noteq> []
      \<and> token_of ''Bearer wrong'' \<noteq> ''secret''"
    by (simp add: startsWith_def example_config_def token_of_def)
  have unset: "hdr_Authorization (example_request\<lparr>hdr_Authorization := Some ''Bearer anything''\<rparr>)
        = Some ''Bearer anything'' \<and> startsWith ''Bearer anything'' ''Bearer ''
      \<and> (REQUIRED_API_KEY default_config = None
          \<or> REQUIRED_API_KEY default_config = Some (token_of ''Bearer anything''))"
    by (simp add: startsWith_def default_config_def)
  have 1: "serve_handler example_config (\<lambda>q. NetworkError) 0 Map.empty
             (example_request\<lparr>hdr_Authorization := None\<rparr>)
           = (jsonResponse example_config
                 (failure ''Authentication required. Please provide a valid Bearer token.''
                    ''AUTH_REQUIRED'')
                 401 (hdr_Origin (example_request\<lparr>hdr_Authorization := None\<rparr>)), Map.empty)"
    using authentication_gate [OF pre(1) pre(2), where a1 = None and h = "[]" and k = "[]"
        and upstream = "\<lambda>q. NetworkError" and now = 0 and st = Map.empty] absent
    by blast
  have 2: "serve_handler example_config (\<lambda>q. NetworkError) 0 Map.empty
             (example_request\<lparr>hdr_Authorization := Some ''Bearer wrong''\<rparr>)
           = (jsonResponse example_config (failure ''Invalid API key.'' ''INVALID_API_KEY'')
                401 (hdr_Origin (example_request\<lparr>hdr_Authorization := Some ''Bearer wrong''\<rparr>)),
              Map.empty)"
    using authentication_gate [OF pre(1) pre(2), where a1 = "Some ''Bearer wrong''"
        and h = "''Bearer wrong''" and k = "''secret''"
        and upstream = "\<lambda>q. NetworkError" and now = 0 and st = Map.empty] wrong
    by blast
  have 3: "response_code (fst (serve_handler default_config (\<lambda>q. NetworkError) 0 Map.empty
       (example_request\<lparr>hdr_Authorization := Some ''Bearer anything''\<rparr>)))
       \<notin> {Some ''AUTH_REQUIRED'', Some ''INVALID_API_KEY''}"
    using authentication_gate [OF pre(1) pre(3), where a1 = "Some ''Bearer anything''"
        and h = "''Bearer anything''" and k = "[]"
        and upstream = "\<lambda>q. NetworkError" and now = 0 and st = Map.empty] unset
    by blast
  show ?thesis
    by (simp add: 1 2) (use 3 in simp)
qed

text \<open>
  C3 as stated covers every request other than a pre-flight.  A request without a
  credential from a foreign origin is stopped at step 2, and is not answered with 401
  and \<^verbatim>\<open>AUTH_REQUIRED\<close>.
\<close>

theorem foreign_origin_without_credential:
  "\<not> (status (fst (serve_handler example_config (\<lambda>q. NetworkError) 0 Map.empty
            (example_request\<lparr>hdr_Origin := Some ''https://evil.example'',
                              hdr_Authorization := None\<rparr>))) = 401
      \<and> response_code (fst (serve_handler example_config (\<lambda>q. NetworkError) 0 Map.empty
            (example_request\<lparr>hdr_Origin := Some ''https://evil.example'',
                              hdr_Authorization := None\<rparr>))) = Some ''AUTH_REQUIRED'')"
  by (simp add: serve_handler_def origin_blocked_def example_request_def example_config_def)

section \<open>The rate-limit identity\<close>

text \<open>
  C9, as the code has it.  For a request that passed authentication, the only entry of
  the store the handler writes is the one of the identity: the token when it is not
  empty, else the first non-empty value among \<^verbatim>\<open>X-Forwarded-For\<close>, \<^verbatim>\<open>X-Real-IP\<close> and
  \<^verbatim>\<open>CF-Connecting-IP\<close>, else the sentinel \<^verbatim>\<open>unknown-ip\<close>.
\<close>

theorem rate_limit_identity:
  assumes "http_method req \<noteq> ''OPTIONS''" "\<not> origin_blocked cfg (hdr_Origin req)"
    "hdr_Authorization req = Some h" "startsWith h ''Bearer ''"
    "\<not> api_key_mismatch cfg (Some (token_of h))"
  shows "\<exists>e. snd (serve_handler cfg upstream now st req) = st(identity_of req (token_of h) \<mapsto> e)"
  using rate_limit_store [of cfg st "identity_of req (token_of h)" now]
  by (simp add: serve_handler_authenticated [OF assms] rate_limiting_snd rateLimitKey_identity)

theorem rate_limit_identity_witness:
  "(\<exists>e. snd (serve_handler example_config (\<lambda>q. NetworkError) 0 Map.empty example_request)
          = [''secret'' \<mapsto> e])
   \<and> (\<exists>e. snd (serve_handler default_config (\<lambda>q. NetworkError) 0 Map.empty
              (example_request\<lparr>hdr_Authorization := Some ''Bearer  x''\<rparr>))
          = [''203.0.113.7'' \<mapsto> e])"
proof -
  have tok: "token_of ''Bearer secret'' = ''secret''" "token_of ''Bearer  x'' = []"
    by (simp_all add: token_of_def)
  have 1: "\<exists>e. snd (serve_handler example_config (\<lambda>q. NetworkError) 0 Map.empty example_request)
          = [''secret'' \<mapsto> e]"
    using rate_limit_identity [of example_request example_config "''Bearer secret''"
        "\<lambda>q. NetworkError" 0 Map.empty]
    by (simp add: tok example_request_def example_config_def origin_blocked_def startsWith_def
          api_key_mismatch_def identity_of_def)
  have 2: "\<exists>e. snd (serve_handler default_config (\<lambda>q. NetworkError) 0 Map.empty
              (example_request\<lparr>hdr_Authorization := Some ''Bearer  x''\<rparr>))
          = [''203.0.113.7'' \<mapsto> e]"
    using rate_limit_identity [of "example_request\<lparr>hdr_Authorization := Some ''Bearer  x''\<rparr>"
        default_config "''Bearer  x''" "\<lambda>q. NetworkError" 0 Map.empty]
    by (simp add: tok example_request_def default_config_def origin_blocked_def startsWith_def
          api_key_mismatch_def identity_of_def)
  from 1 2 show ?thesis by blast
qed

text \<open>
  C9 as stated names the sentinel \<^verbatim>\<open>unknown\<close>.  With no key configured, an empty token
  (two spaces after \<^verbatim>\<open>Bearer\<close>) and no forwarding header, the entry is written under
  \<^verbatim>\<open>unknown-ip\<close>, and nothing is written under \<^verbatim>\<open>unknown\<close>.
\<close>

theorem sentinel_identity:
  "snd (serve_handler default_config (\<lambda>q. NetworkError) 0 Map.empty
          (example_request\<lparr>hdr_X_Forwarded_For := None, hdr_Authorization := Some ''Bearer  x''\<rparr>))
      ''unknown'' = None
   \<and> snd (serve_handler default_config (\<lambda>q. NetworkError) 0 Map.empty
          (example_request\<lparr>hdr_X_Forwarded_For := None, hdr_Authorization := Some ''Bearer  x''\<rparr>))
      ''unknown-ip'' \<noteq> None"
  by (simp add: serve_handler_def api_key_authentication_def origin_blocked_def startsWith_def
        api_key_mismatch_def bearer_token_def js_index_def rate_limiting_snd rate_limit_def
        rateLimitKey_def clientIp_def or_else_def example_request_def default_config_def)

section \<open>The rate limiter\<close>




lemma requests_of_simps [simp]:
  "requests_of k [] = 0"
  "requests_of k (r # rs) = (if fst r = k then 1 else 0) + requests_of k rs"
  by (simp_all add: requests_of_def)

lemma rate_run_length [simp]: "length (fst (rate_run cfg st rs)) = length rs"
  by (induction rs arbitrary: st) (auto simp: split_beta)





section \<open>The upstream call and its normalisation\<close>

lemma js_get_field:
  "v \<noteq> JNull \<Longrightarrow> v \<noteq> JUndefined \<Longrightarrow> js_get v k = Some (field v k)"
  by (cases v) (simp_all add: field_def)

lemma truthy_not_null: "truthy v \<Longrightarrow> v \<noteq> JNull \<and> v \<noteq> JUndefined"
  by (cases v) simp_all

lemma js_get_truthy: "truthy v \<Longrightarrow> js_get v k = Some (field v k)"
  by (simp add: js_get_field truthy_not_null)

lemma field_truthy_parent: "truthy (field v k) \<Longrightarrow> v \<noteq> JNull \<and> v \<noteq> JUndefined"
  by (cases v) (simp_all add: field_def)

lemma normalize_media_item:
  "m \<noteq> JNull \<Longrightarrow> m \<noteq> JUndefined \<Longrightarrow> normalize_media m = Some (option_of_item m)"
  by (simp add: normalize_media_def option_of_item_def js_get_field js_or_def)

lemma map_throwing_items:
  "JNull \<notin> set ms \<Longrightarrow> JUndefined \<notin> set ms \<Longrightarrow>
   map_throwing normalize_media ms = Some (map option_of_item ms)"
  by (induction ms) (auto simp: normalize_media_item)


lemma fetch_try_usable:
  assumes "usable_media result ms"
  shows "fetch_try (Parsed result) u =
     Some \<lparr>success = True,
           data = Some \<lparr>media_type = (if truthy (field (field result ''data'') ''type'')
                                        then field (field result ''data'') ''type''
                                        else JStr ''post''),
                        originalUrl = u,
                        thumbnail = field (field result ''data'') ''thumbnail'',
                        downloadOptions = map option_of_item ms\<rparr>,
           error = None, errorCode = None\<rparr>"
proof -
  from assms have st: "truthy (field result ''status'')" and dt: "truthy (field result ''data'')"
    and ms: "field (field result ''data'') ''medias'' = JArr ms" "ms \<noteq> []"
    and nn: "JNull \<notin> set ms" "JUndefined \<notin> set ms"
    by (simp_all add: usable_media_def)
  from st have r: "result \<noteq> JNull" "result \<noteq> JUndefined"
    using field_truthy_parent by blast+
  have s: "js_get result ''status'' = Some (field result ''status'')"
    and d: "js_get result ''data'' = Some (field result ''data'')"
    using r by (simp_all add: js_get_field)
  have g: "js_get (field result ''data'') k = Some (field (field result ''data'') k)" for k
    using dt by (simp add: js_get_truthy)
  have len: "js_get (JArr ms) ''length'' = Some (JNum (int (length ms)))" by simp
  have nz: "JNum (int (length ms)) \<noteq> JNum 0" using ms(2) by simp
  show ?thesis
    unfolding fetch_try_def
    by (simp add: s d g st dt ms len nz map_throwing_items [OF nn] js_or_def del: js_get.simps)
qed



lemma fetchInstagramMedia_throws:
  assumes "upstream (js_toString u) = NetworkError \<or> upstream (js_toString u) = JsonParseError
           \<or> upstream (js_toString u) = Parsed JNull"
  shows "fetchInstagramMedia upstream u = FETCH_FAILED"
  using assms by (auto simp: fetchInstagramMedia_def fetch_try_def)



lemma example_payload_usable: "usable_media example_payload [example_item]"
  by (simp add: usable_media_def example_payload_def example_item_def field_def)

lemma serve_handler_reaches_body:
  assumes "http_method req \<noteq> ''OPTIONS''" "\<not> origin_blocked cfg (hdr_Origin req)"
    "hdr_Authorization req = Some h" "startsWith h ''Bearer ''"
    "\<not> api_key_mismatch cfg (Some (token_of h))"
    "fst (rate_limit cfg st (identity_of req (token_of h)) now)"
  shows "fst (serve_handler cfg upstream now st req)
           = process_request_body cfg upstream (hdr_Origin req) req"
  using assms(6)
  by (simp add: serve_handler_authenticated [OF assms(1-5)] rate_limiting_fst
        rateLimitKey_identity)

text \<open>
  A response that is the literal \<^verbatim>\<open>null\<close>, or whose \<^verbatim>\<open>medias\<close> is truthy but not a list,
  makes the \<^verbatim>\<open>try\<close> block throw, and ends as a transport failure.
\<close>

lemma null_response_is_fetch_failed:
  "fetchInstagramMedia (\<lambda>q. Parsed JNull) u = FETCH_FAILED"
  by (simp add: fetchInstagramMedia_throws)

lemma non_array_medias_is_fetch_failed:
  "fetchInstagramMedia
     (\<lambda>q. Parsed (JObj [(''status'', JBool True), (''data'', JObj [(''medias'', JStr ''abc'')])]))
     u = FETCH_FAILED"
  by (simp add: fetchInstagramMedia_def fetch_try_def)



text \<open>
  C6, as the code has it.  For a usable upstream payload the result is a success whose
  download options are the upstream items in the same order, each keeping \<^verbatim>\<open>quality\<close>
  and \<^verbatim>\<open>url\<close> and carrying \<^verbatim>\<open>formattedSize\<close> as its size.  The defaults \<^verbatim>\<open>default\<close>,
  \<^verbatim>\<open>unknown\<close> and \<^verbatim>\<open>post\<close> replace a quality, size or type exactly when the upstream
  field is absent or falsy (\<^verbatim>\<open>null\<close>, \<^verbatim>\<open>false\<close>, \<^verbatim>\<open>0\<close> or the empty string).
\<close>

theorem media_normalisation:
  assumes "upstream (js_toString u) = Parsed result" and "usable_media result ms"
  shows "fetchInstagramMedia upstream u =
     \<lparr>success = True,
      data = Some \<lparr>media_type = (if truthy (field (field result ''data'') ''type'')
                                   then field (field result ''data'') ''type''
                                   else JStr ''post''),
                   originalUrl = u,
                   thumbnail = field (field result ''data'') ''thumbnail'',
                   downloadOptions = map option_of_item ms\<rparr>,
      error = None, errorCode = None\<rparr>"
  using assms fetch_try_usable [of result ms u] by (simp add: fetchInstagramMedia_def)

text \<open>
  The payload with the item \<^verbatim>\<open>{quality:"hd", url:"x.mp4", formattedSize:"2MB"}\<close> and no
  type.
\<close>

theorem media_normalisation_witness:
  "fetchInstagramMedia (\<lambda>q. Parsed example_payload) (JStr ''https://www.instagram.com/p/ABC123/'')
     = \<lparr>success = True,
        data = Some \<lparr>media_type = JStr ''post'',
                     originalUrl = JStr ''https://www.instagram.com/p/ABC123/'',
                     thumbnail = JStr ''t.jpg'',
                     downloadOptions =
                       [\<lparr>quality = JStr ''hd'', url = JStr ''x.mp4'', size_str = JStr ''2MB''\<rparr>]\<rparr>,
        error = None, errorCode = None\<rparr>"
  using media_normalisation [of "\<lambda>q. Parsed example_payload"
      "JStr ''https://www.instagram.com/p/ABC123/''" example_payload "[example_item]"]
    example_payload_usable
  by (simp add: example_payload_def example_item_def field_def option_of_item_def)

text \<open>
  C6 as stated applies the defaults only to absent fields.  An item whose quality is
  the empty string and whose size is 0 has both fields, and gets both defaults.
\<close>

theorem empty_quality_gets_default:
  "fetchInstagramMedia
     (\<lambda>q. Parsed (JObj [(''status'', JBool True),
                         (''data'', JObj [(''type'', JStr ''reel''),
                                          (''medias'', JArr [JObj [(''quality'', JStr []),
                                                                   (''url'', JStr ''x.mp4''),
                                                                   (''formattedSize'', JNum 0)]])])]))
     (JStr ''https://www.instagram.com/p/ABC123/'')
   = \<lparr>success = True,
      data = Some \<lparr>media_type = JStr ''reel'',
                   originalUrl = JStr ''https://www.instagram.com/p/ABC123/'',
                   thumbnail = JUndefined,
                   downloadOptions =
                     [\<lparr>quality = JStr ''default'', url = JStr ''x.mp4'',
                       size_str = JStr ''unknown''\<rparr>]\<rparr>,
      error = None, errorCode = None\<rparr>"
  by (simp add: fetchInstagramMedia_def fetch_try_def normalize_media_def js_or_def)

section \<open>The response envelope\<close>

lemma envelope_ok_failure: "m \<noteq> [] \<Longrightarrow> c \<noteq> [] \<Longrightarrow> envelope_ok (failure m c)"
  by (simp add: envelope_ok_def)

lemma envelope_ok_fetch: "envelope_ok (fetchInstagramMedia upstream u)"
  using fetchInstagramMedia_cases [of upstream u]
  by (auto simp: envelope_ok_def NO_MEDIA_FOUND_def FETCH_FAILED_def)

lemma envelope_ok_process:
  "\<exists>e. body (process_request_body cfg upstream ro req) = Some e \<and> envelope_ok e"
  by (simp add: process_request_body_def Let_def envelope_ok_failure envelope_ok_fetch
        split: option.splits)

lemma envelope_ok_rate_limiting:
  "\<exists>e. body (fst (rate_limiting cfg upstream now st req token)) = Some e \<and> envelope_ok e"
  using envelope_ok_process [of cfg upstream "hdr_Origin req" req]
  by (simp add: rate_limiting_fst envelope_ok_failure)

text \<open>
  C2, as the code has it.  Every response to a request other than a pre-flight has a
  body that is an envelope with exactly one side populated: a success carries data and
  neither message nor code; a failure carries \<^verbatim>\<open>success: false\<close>, a non-empty message
  and a non-empty code, and no data.
\<close>

theorem envelope_invariant:
  assumes "http_method req \<noteq> ''OPTIONS''"
  shows "\<exists>e. body (fst (serve_handler cfg upstream now st req)) = Some e \<and> envelope_ok e"
  using assms envelope_ok_rate_limiting [of cfg upstream now st req]
  by (simp add: serve_handler_def api_key_authentication_def Let_def envelope_ok_failure
        split: option.splits)

theorem envelope_invariant_witness:
  "http_method example_request \<noteq> ''OPTIONS''
   \<and> (\<exists>e. body (fst (serve_handler example_config (\<lambda>q. Parsed example_payload) 0 Map.empty
                       example_request)) = Some e \<and> envelope_ok e)"
  using envelope_invariant [of example_request example_config "\<lambda>q. Parsed example_payload" 0
      Map.empty]
  by (simp add: example_request_def)

text \<open>
  C2 as stated covers every request outcome.  The pre-flight response has no body, so
  neither side is populated.
\<close>

theorem preflight_has_no_envelope:
  "body (fst (serve_handler example_config (\<lambda>q. Parsed example_payload) 0 Map.empty
            (example_request\<lparr>http_method := ''OPTIONS''\<rparr>))) = None"
  by (simp add: serve_handler_def example_request_def)

section \<open>URL validation\<close>




























text \<open>
  The first variant does not keep the invariant: a body without \<^verbatim>\<open>url\<close> is answered
  with \<^verbatim>\<open>{ error: 'URL is required' }\<close>, which has no \<^verbatim>\<open>success\<close> field (and the body
  type of this variant has no code at all).
\<close>

lemma v1_failure_without_success:
  "v1_handler upstream m1 m2 (example_request\<lparr>json_body := Some (JObj [])\<rparr>)
     = \<lparr>v1_status = 400,
        v1_headers = corsHeaders(''Content-Type'' \<mapsto> ''application/json''),
        v1_sent = Some \<lparr>v1_success = None, v1_data = None,
                        v1_error = Some ''URL is required''\<rparr>\<rparr>"
  by (simp add: v1_handler_def example_request_def)

end
